theory Spec2Isabelle
  imports Complex_Main
begin

section \<open>Numbers, dates and the JavaScript helpers the services use\<close>

text \<open>
  The services compute on JavaScript \<^verbatim>\<open>number\<close>s. They are modelled as exact reals:
  rounding, overflow to \<^verbatim>\<open>Infinity\<close> and \<^verbatim>\<open>NaN\<close> inputs of IEEE doubles are outside the
  model. Where the source divides by a value that can be zero, the model says so at
  that place.
\<close>

type_synonym number = real

text \<open>
  A \<^verbatim>\<open>Date\<close>, by its fields in local time. The analytics only ever read
  \<^verbatim>\<open>getFullYear()\<close> and \<^verbatim>\<open>getMonth()\<close>, so the calendar month is kept as one integer
  (\<open>12 * year + month\<close>), which is also how \<^verbatim>\<open>new Date(y, m, 1)\<close> normalises a month
  outside \<open>0..11\<close>. The day of the month and the time of day are carried along, since the
  wall clock has them and the planner prints a date. The date string of a ledger entry
  that does not parse is outside the model.
\<close>

record Date =
  monthCount :: int
  dayOfMonth :: nat
  msOfDay :: nat

definition getFullYear :: "Date \<Rightarrow> int" where
  "getFullYear d = monthCount d div 12"

definition getMonth :: "Date \<Rightarrow> int" where
  "getMonth d = monthCount d mod 12"

text \<open>\<^verbatim>\<open>new Date(y, m, 1)\<close>: the first day of month \<open>m\<close> of year \<open>y\<close>, at midnight.\<close>

definition newDate :: "int \<Rightarrow> int \<Rightarrow> Date" where
  "newDate y m = \<lparr>monthCount = 12 * y + m, dayOfMonth = 1, msOfDay = 0\<rparr>"

definition MONTH_NAMES :: "string list" where
  "MONTH_NAMES = [''Jan'', ''Feb'', ''Mar'', ''Apr'', ''May'', ''Jun'',
                  ''Jul'', ''Aug'', ''Sep'', ''Oct'', ''Nov'', ''Dec'']"

definition monthName :: "int \<Rightarrow> string" where
  "monthName m = MONTH_NAMES ! nat m"

text \<open>\<^verbatim>\<open>Math.round\<close> rounds half-way cases up; \<^verbatim>\<open>Math.ceil\<close> is the ceiling.\<close>

definition Math_round :: "number \<Rightarrow> int" where
  "Math_round x = \<lfloor>x + 1 / 2\<rfloor>"

definition Math_ceil :: "number \<Rightarrow> int" where
  "Math_ceil x = \<lceil>x\<rceil>"

text \<open>
  \<^verbatim>\<open>Math.pow\<close>: repeated multiplication at an integer exponent (any base), the real power
  otherwise (\<^verbatim>\<open>NaN\<close> for a negative base there is outside the model).
\<close>

definition Math_pow :: "number \<Rightarrow> number \<Rightarrow> number" where
  "Math_pow b e =
     (if e = of_int \<lfloor>e\<rfloor>
      then (if 0 \<le> e then b ^ nat \<lfloor>e\<rfloor> else 1 / b ^ nat \<lfloor>- e\<rfloor>)
      else b powr e)"

text \<open>\<^verbatim>\<open>x || d\<close> on a number (\<open>0\<close> is falsy) and on an optional number (\<^verbatim>\<open>undefined\<close> is falsy).\<close>

definition num_or :: "number \<Rightarrow> number \<Rightarrow> number" where
  "num_or x d = (if x = 0 then d else x)"

definition opt_or :: "number option \<Rightarrow> number \<Rightarrow> number" where
  "opt_or x d = (case x of None \<Rightarrow> d | Some v \<Rightarrow> num_or v d)"

section \<open>Purchase planner\<close>

datatype PurchaseMode = Mode_emi | Mode_savings | Mode_save_extra

record FinancialProfile =
  monthlyIncome :: number
  monthlyExpenses :: number
  monthlyRoutineBills :: number
  existingSavings :: number
  extraSavingPerMonth :: number

text \<open>
  The optional \<^verbatim>\<open>startDate\<close> string of a purchase: absent or empty (falsy), a string that
  \<^verbatim>\<open>new Date\<close> parses, given by the date it denotes, or a string it does not parse, which
  yields an invalid date.
\<close>

datatype StartDate = NoStartDate | ParsedStartDate Date | InvalidStartDate

record PurchaseDetails =
  itemName :: string
  actualPrice :: number
  mode :: PurchaseMode
  downPayment :: "number option"
  emiTenureMonths :: "number option"
  interestRate :: "number option"
  startDate :: StartDate
  monthlySavingForPurchase :: "number option"

record EMIAnalysis =
  emiAmount :: number
  totalAmountWithInterest :: number
  totalInterestPaid :: number
  emiBurdenPercent :: number
  newSavingsRate :: number
  isAffordable :: bool
  impactOnYearlySavings :: number
  disposableIncome :: number
  emiToDisposableRatio :: number

record TimelineEntry =
  tl_month :: int
  accumulated :: number
  remaining :: number

text \<open>
  \<open>projectedPurchaseDate\<close> is \<^verbatim>\<open>projDate.toISOString().split("T")[0]\<close>, the calendar date in
  UTC; the string \<^verbatim>\<open>YYYY-MM-DD\<close> is modelled by the three numbers it prints.
\<close>

record IsoDate =
  iso_year :: int
  iso_month :: int
  iso_day :: int

record SavingsAnalysis =
  monthsRequired :: int
  projectedPurchaseDate :: IsoDate
  yearsRequired :: number
  isFeasibleWithinYear :: bool
  savingsGrowthTimeline :: "TimelineEntry list"
  delayBenefitAmount :: number

subsection \<open>The calendar of \<^verbatim>\<open>Date\<close>\<close>

text \<open>
  The time value of a \<^verbatim>\<open>Date\<close> counts milliseconds from 1 January 1970 and is valid up to
  \<open>8.64 * 10^15\<close> in absolute value. \<open>DayFromYear\<close> and \<open>InLeapYear\<close> are those of the
  ECMAScript specification; \<open>monthStartDay\<close> is the day number of the first day of a month.
\<close>

definition msPerDay :: int where
  "msPerDay = 86400000"

definition maxTimeValue :: int where
  "maxTimeValue = 8640000000000000"

definition DayFromYear :: "int \<Rightarrow> int" where
  "DayFromYear y = 365 * (y - 1970) + (y - 1969) div 4 - (y - 1901) div 100 + (y - 1601) div 400"

definition InLeapYear :: "int \<Rightarrow> bool" where
  "InLeapYear y = (if y mod 4 \<noteq> 0 then False else if y mod 100 \<noteq> 0 then True
                   else if y mod 400 \<noteq> 0 then False else True)"

definition daysBeforeMonth :: "int list" where
  "daysBeforeMonth = [0, 31, 59, 90, 120, 151, 181, 212, 243, 273, 304, 334]"

definition monthStartDay :: "int \<Rightarrow> int" where
  "monthStartDay mc =
     (let y = mc div 12; m = mc mod 12
      in DayFromYear y + daysBeforeMonth ! nat m + (if InLeapYear y \<and> m \<ge> 2 then 1 else 0))"

text \<open>
  The local time value of the fields of a date, as \<^verbatim>\<open>MakeDate(MakeDay(year, month, date), time)\<close>
  computes it: the day of the month is counted on from the first day of the month, so a
  day past the end of the month falls into the next month.
\<close>

definition localTimeValue :: "Date \<Rightarrow> int" where
  "localTimeValue d =
     (monthStartDay (monthCount d) + int (dayOfMonth d) - 1) * msPerDay + int (msOfDay d)"

text \<open>
  \<^verbatim>\<open>d.setMonth(m)\<close> keeps the year, the day of the month and the time of day and replaces
  the month, which may lie outside \<open>0..11\<close>. An invalid date (\<open>None\<close>) stays invalid.
\<close>

definition setMonth :: "Date \<Rightarrow> int \<Rightarrow> Date" where
  "setMonth d m = d\<lparr>monthCount := 12 * getFullYear d + m\<rparr>"

text \<open>
  The calendar date of a day number (days since 1 January 1970), in the proleptic
  Gregorian calendar: the day number is split into 400-year eras of 146097 days, the
  day of the era into the year of the era, and the day of the year, counted from 1 March,
  into month and day.
\<close>

definition civilFromDays :: "int \<Rightarrow> IsoDate" where
  "civilFromDays z0 =
     (let z = z0 + 719468;
          era = z div 146097;
          doe = z - era * 146097;
          yoe = (doe - doe div 1460 + doe div 36524 - doe div 146096) div 365;
          doy = doe - (365 * yoe + yoe div 4 - yoe div 100);
          mp = (5 * doy + 2) div 153;
          d = doy - (153 * mp + 2) div 5 + 1;
          m = (if mp < 10 then mp + 3 else mp - 9);
          y = yoe + era * 400 + (if m \<le> 2 then 1 else 0)
      in \<lparr>iso_year = y, iso_month = m, iso_day = d\<rparr>)"

text \<open>
  \<^verbatim>\<open>toISOString().split("T")[0]\<close>. \<open>tz\<close> is the host's time zone: the offset of local time
  from UTC in milliseconds, at a local time value. The time value is the local one moved
  to UTC; outside the valid range, or on an invalid date, the source raises a
  \<^verbatim>\<open>RangeError\<close>.
\<close>

datatype PlannerError = RangeError

definition toISOString :: "(int \<Rightarrow> int) \<Rightarrow> Date option \<Rightarrow> PlannerError + IsoDate" where
  "toISOString tz d =
     (case d of
        None \<Rightarrow> Inl RangeError
      | Some d' \<Rightarrow>
          (let t = localTimeValue d' - tz (localTimeValue d')
           in if \<bar>t\<bar> \<le> maxTimeValue then Inr (civilFromDays (t div msPerDay)) else Inl RangeError))"

text \<open>The planner's \<^verbatim>\<open>fmt\<close> is \<^verbatim>\<open>Math.round\<close>.\<close>

definition fmt :: "number \<Rightarrow> number" where
  "fmt n = of_int (Math_round n)"

text \<open>
  \<^verbatim>\<open>calculateEMI\<close>. With \<open>tenureMonths = 0\<close> the source divides by zero; the callers in
  the source pass \<^verbatim>\<open>emiTenureMonths || 12\<close>, which is never zero.
\<close>

definition calculateEMI :: "number \<Rightarrow> number \<Rightarrow> number \<Rightarrow> number" where
  "calculateEMI principal' annualRate tenureMonths =
     (if annualRate = 0 then principal' / tenureMonths
      else let r = annualRate / 12 / 100
           in (principal' * r * Math_pow (1 + r) tenureMonths) / (Math_pow (1 + r) tenureMonths - 1))"

definition analyzeEMI :: "FinancialProfile \<Rightarrow> PurchaseDetails \<Rightarrow> EMIAnalysis" where
  "analyzeEMI profile details =
     (let principal' = actualPrice details - opt_or (downPayment details) 0;
          tenure = opt_or (emiTenureMonths details) 12;
          rate = opt_or (interestRate details) 0;
          emi = calculateEMI principal' rate tenure;
          totalWithInterest = emi * tenure + opt_or (downPayment details) 0;
          totalInterest = totalWithInterest - actualPrice details;
          disposable = monthlyIncome profile - monthlyExpenses profile - monthlyRoutineBills profile;
          emiBurden = (if disposable > 0 then (emi / disposable) * 100 else 100);
          newMonthlySavings = disposable - emi;
          newSavingsRate' = (if monthlyIncome profile > 0
                             then (newMonthlySavings / monthlyIncome profile) * 100 else 0);
          currentSavings = disposable;
          yearlyImpact = (currentSavings - newMonthlySavings) * 12
      in \<lparr>emiAmount = fmt emi,
          totalAmountWithInterest = fmt totalWithInterest,
          totalInterestPaid = fmt totalInterest,
          emiBurdenPercent = of_int (Math_round (emiBurden * 10)) / 10,
          newSavingsRate = of_int (Math_round (newSavingsRate' * 10)) / 10,
          isAffordable = (emiBurden < 40),
          impactOnYearlySavings = fmt yearlyImpact,
          disposableIncome = fmt disposable,
          emiToDisposableRatio = of_int (Math_round ((emi / max disposable 1) * 100)) / 100\<rparr>)"

text \<open>
  \<^verbatim>\<open>analyzeSavings\<close>, in the order of the source: the monthly saving used (never zero,
  because of \<^verbatim>\<open>|| 1\<close>), the months required, the projected date (the start date, or the
  wall clock \<open>now\<close> when the details carry none, moved on by \<^verbatim>\<open>setMonth\<close>), the timeline,
  whose loop \<^verbatim>\<open>for (i = 0; i <= Math.min(monthsReq, 60); i++)\<close> runs over the integers
  \<open>0 .. min monthsReq 60\<close>, none when the bound is negative, and the returned object. The
  only statement that can raise is \<^verbatim>\<open>projDate.toISOString()\<close> in the returned object.
\<close>

definition monthlySavingFor :: "FinancialProfile \<Rightarrow> PurchaseDetails \<Rightarrow> number" where
  "monthlySavingFor profile details =
     opt_or (monthlySavingForPurchase details) (num_or (extraSavingPerMonth profile) 1)"

definition monthsReqFor :: "FinancialProfile \<Rightarrow> PurchaseDetails \<Rightarrow> int" where
  "monthsReqFor profile details =
     (let monthlySaving = monthlySavingFor profile details;
          target = actualPrice details;
          existing = existingSavings profile;
          remaining' = max 0 (target - existing)
      in if remaining' > 0 then Math_ceil (remaining' / monthlySaving) else 0)"

definition projDateFor :: "Date \<Rightarrow> FinancialProfile \<Rightarrow> PurchaseDetails \<Rightarrow> Date option" where
  "projDateFor now profile details =
     (let monthsReq = monthsReqFor profile details;
          startDate' = (case startDate details of
                          NoStartDate \<Rightarrow> Some now
                        | ParsedStartDate d \<Rightarrow> Some d
                        | InvalidStartDate \<Rightarrow> None)
      in map_option (\<lambda>d. setMonth d (getMonth d + monthsReq)) startDate')"

definition analyzeSavings ::
  "(int \<Rightarrow> int) \<Rightarrow> Date \<Rightarrow> FinancialProfile \<Rightarrow> PurchaseDetails \<Rightarrow> PlannerError + SavingsAnalysis" where
  "analyzeSavings tz now profile details =
     (let monthlySaving = monthlySavingFor profile details;
          target = actualPrice details;
          existing = existingSavings profile;
          monthsReq = monthsReqFor profile details;
          projDate = projDateFor now profile details;
          timeline = map (\<lambda>i. let accumulated' = existing + monthlySaving * of_int i
                               in \<lparr>tl_month = i,
                                   accumulated = min accumulated' target,
                                   remaining = max 0 (target - accumulated')\<rparr>)
                         [0 .. min monthsReq 60];
          hypotheticalInterest = target * (12 / 100) * (of_int monthsReq / 12)
      in case toISOString tz projDate of
           Inl err \<Rightarrow> Inl err
         | Inr isoDate \<Rightarrow>
             Inr \<lparr>monthsRequired = monthsReq,
                  projectedPurchaseDate = isoDate,
                  yearsRequired = of_int (Math_round ((of_int monthsReq / 12) * 10)) / 10,
                  isFeasibleWithinYear = (monthsReq \<le> 12),
                  savingsGrowthTimeline = timeline,
                  delayBenefitAmount = fmt hypotheticalInterest\<rparr>)"

section \<open>Records of the ledger and derived views\<close>

datatype ExpenseCategory = Food | Transport | Entertainment | Bills | Shopping | Others

definition categoryName :: "ExpenseCategory \<Rightarrow> string" where
  "categoryName c = (case c of Food \<Rightarrow> ''Food'' | Transport \<Rightarrow> ''Transport''
     | Entertainment \<Rightarrow> ''Entertainment'' | Bills \<Rightarrow> ''Bills''
     | Shopping \<Rightarrow> ''Shopping'' | Others \<Rightarrow> ''Others'')"

text \<open>
  \<open>Income\<close> and \<open>Expense\<close> entries. \<open>i_date\<close> and \<open>e_date\<close> stand for \<^verbatim>\<open>new Date(x.date)\<close>.
  The optional payment metadata of an expense is never read by the analytics and is left
  out.
\<close>

record Income =
  i_id :: string
  i_userId :: string
  i_amount :: number
  i_source :: string
  i_date :: Date

record Expense =
  e_id :: string
  e_userId :: string
  e_amount :: number
  e_category :: ExpenseCategory
  e_description :: string
  e_date :: Date

record MonthlyAggregate =
  month :: string
  monthIndex :: int
  year :: int
  income :: number
  expenses :: number
  savings :: number
  savingsRate :: number

record CategorySummary =
  category :: string
  total :: number
  percentage :: number
  monthlyBreakdown :: "(string \<times> number) list"
  growth :: number

record YearlySummary =
  totalIncome :: number
  totalExpenses :: number
  totalSavings :: number
  y_savingsRate :: number
  highestSpendingCategory :: string
  highestSpendingAmount :: number
  bestMonth :: string
  worstMonth :: string
  averageMonthlyExpense :: number
  averageMonthlyIncome :: number
  monthsTracked :: nat

record CurrentMonthStats =
  c_income :: number
  c_expenses :: number
  c_savings :: number
  c_savingsRate :: number

record Projection =
  p_month :: string
  p_income :: number
  p_expenses :: number
  p_savings :: number

datatype Trend = improving | declining | stable

record Prediction =
  nextMonthIncome :: number
  nextMonthExpense :: number
  nextMonthSavingsRate :: number
  threeMonthProjection :: "Projection list"
  trend :: Trend

datatype Grade = Grade_A | Grade_B | Grade_C | Grade_D | Grade_F

record Factor =
  label :: string
  f_score :: number
  weight :: number

record FinancialHealthScore =
  score :: int
  grade :: Grade
  factors :: "Factor list"

section \<open>Maps, reductions and sorting\<close>

text \<open>
  A JavaScript \<^verbatim>\<open>Map\<close> (and an object used as a dictionary) is an association list in
  insertion order: \<^verbatim>\<open>set\<close> on a key that is present replaces the value in place, on a new
  key it appends; \<^verbatim>\<open>values()\<close> lists the values in that order.
\<close>

type_synonym ('k, 'v) Map = "('k \<times> 'v) list"

fun Map_set :: "'k \<Rightarrow> 'v \<Rightarrow> ('k, 'v) Map \<Rightarrow> ('k, 'v) Map" where
  "Map_set k v [] = [(k, v)]"
| "Map_set k v (p # ps) = (if fst p = k then (k, v) # ps else p # Map_set k v ps)"

definition Map_get :: "('k, 'v) Map \<Rightarrow> 'k \<Rightarrow> 'v option" where
  "Map_get m k = map_of m k"

definition Map_values :: "('k, 'v) Map \<Rightarrow> 'v list" where
  "Map_values m = map snd m"

text \<open>\<^verbatim>\<open>xs.reduce((s, x) => s + f(x), 0)\<close>, a left-to-right sum starting at \<open>0\<close>.\<close>

definition sum_by :: "('a \<Rightarrow> number) \<Rightarrow> 'a list \<Rightarrow> number" where
  "sum_by f xs = fold (\<lambda>x s. s + f x) xs 0"

text \<open>
  \<^verbatim>\<open>xs.reduce((a, b) => pick(a, b))\<close> without an initial value: the accumulator starts at
  the first element. On an empty array JavaScript raises a \<^verbatim>\<open>TypeError\<close>, here \<open>None\<close>; the
  source calls it only under a guard on the length.
\<close>

definition reduce1 :: "('a \<Rightarrow> 'a \<Rightarrow> 'a) \<Rightarrow> 'a list \<Rightarrow> 'a option" where
  "reduce1 pick xs = (case xs of [] \<Rightarrow> None | x # rest \<Rightarrow> Some (fold (\<lambda>b a. pick a b) rest x))"

text \<open>\<^verbatim>\<open>s || d\<close> on a string (the empty string is falsy).\<close>

definition str_or :: "string \<Rightarrow> string \<Rightarrow> string" where
  "str_or s d = (if s = [] then d else s)"

section \<open>Analytics and aggregation\<close>

text \<open>
  The month key \<^verbatim>\<open>`${d.getFullYear()}-${d.getMonth()}`\<close> is modelled by the pair of the two
  numbers it prints.
\<close>

definition getMonthKey :: "Date \<Rightarrow> int \<times> int" where
  "getMonthKey d = (getFullYear d, getMonth d)"

definition getMonthLabel :: "Date \<Rightarrow> string" where
  "getMonthLabel d = monthName (getMonth d)"

definition isActive :: "MonthlyAggregate \<Rightarrow> bool" where
  "isActive m = (income m > 0 \<or> expenses m > 0)"

text \<open>
  \<^verbatim>\<open>getMonthlyAggregates\<close>. \<open>now\<close> is the wall clock read by \<^verbatim>\<open>new Date()\<close>. The loop
  \<^verbatim>\<open>for (i = 11; i >= 0; i--)\<close> visits \<open>11, 10, \<dots>, 0\<close>.
\<close>

definition initMonth :: "Date \<Rightarrow> int \<Rightarrow> (int \<times> int) \<times> MonthlyAggregate" where
  "initMonth now i =
     (let d = newDate (getFullYear now) (getMonth now - i)
      in ((getFullYear d, getMonth d),
          \<lparr>month = monthName (getMonth d), monthIndex = getMonth d, year = getFullYear d,
           income = 0, expenses = 0, savings = 0, savingsRate = 0\<rparr>))"

definition addIncome :: "Income \<Rightarrow> (int \<times> int, MonthlyAggregate) Map \<Rightarrow> (int \<times> int, MonthlyAggregate) Map" where
  "addIncome i m =
     (let key = getMonthKey (i_date i)
      in case Map_get m key of
           Some agg \<Rightarrow> Map_set key (agg\<lparr>income := income agg + i_amount i\<rparr>) m
         | None \<Rightarrow> m)"

definition addExpense :: "Expense \<Rightarrow> (int \<times> int, MonthlyAggregate) Map \<Rightarrow> (int \<times> int, MonthlyAggregate) Map" where
  "addExpense e m =
     (let key = getMonthKey (e_date e)
      in case Map_get m key of
           Some agg \<Rightarrow> Map_set key (agg\<lparr>expenses := expenses agg + e_amount e\<rparr>) m
         | None \<Rightarrow> m)"

definition calcSavings :: "MonthlyAggregate \<Rightarrow> MonthlyAggregate" where
  "calcSavings agg =
     (let agg1 = agg\<lparr>savings := income agg - expenses agg\<rparr>
      in agg1\<lparr>savingsRate := (if income agg1 > 0 then (savings agg1 / income agg1) * 100 else 0)\<rparr>)"

definition getMonthlyAggregates :: "Date \<Rightarrow> Income list \<Rightarrow> Expense list \<Rightarrow> MonthlyAggregate list" where
  "getMonthlyAggregates now incs exps =
     (let map0 = fold (\<lambda>i m. Map_set (fst (initMonth now i)) (snd (initMonth now i)) m) (rev [0 .. 11]) [];
          map1 = fold addIncome incs map0;
          map2 = fold addExpense exps map1;
          map3 = map (\<lambda>(key, agg). (key, calcSavings agg)) map2
      in Map_values map3)"

definition getCurrentMonthStats :: "Date \<Rightarrow> Income list \<Rightarrow> Expense list \<Rightarrow> CurrentMonthStats" where
  "getCurrentMonthStats now incs exps =
     (let cm = getMonth now;
          cy = getFullYear now;
          monthIncome = sum_by i_amount
            (filter (\<lambda>i. getMonth (i_date i) = cm \<and> getFullYear (i_date i) = cy) incs);
          monthExpenses = sum_by e_amount
            (filter (\<lambda>e. getMonth (e_date e) = cm \<and> getFullYear (e_date e) = cy) exps)
      in \<lparr>c_income = monthIncome,
          c_expenses = monthExpenses,
          c_savings = monthIncome - monthExpenses,
          c_savingsRate = (if monthIncome > 0
                           then ((monthIncome - monthExpenses) / monthIncome) * 100 else 0)\<rparr>)"

text \<open>
  \<^verbatim>\<open>getCategorySummaries\<close>. One step of the first loop: the summary of the expense's
  category is created with zero totals if the map has none, then its total and its
  per-month breakdown grow by the amount.
\<close>

definition addToCategory :: "Expense \<Rightarrow> (string, CategorySummary) Map \<Rightarrow> (string, CategorySummary) Map" where
  "addToCategory e catMap =
     (let key = categoryName (e_category e);
          cat = (case Map_get catMap key of
                   None \<Rightarrow> \<lparr>category = key, total = 0, percentage = 0, monthlyBreakdown = [], growth = 0\<rparr>
                 | Some c \<Rightarrow> c);
          ml = getMonthLabel (e_date e)
      in Map_set key
           (cat\<lparr>total := total cat + e_amount e,
                monthlyBreakdown :=
                  Map_set ml (opt_or (Map_get (monthlyBreakdown cat) ml) 0 + e_amount e)
                    (monthlyBreakdown cat)\<rparr>)
           catMap)"

definition calcPercentage :: "number \<Rightarrow> int \<Rightarrow> int \<Rightarrow> CategorySummary \<Rightarrow> CategorySummary" where
  "calcPercentage totalAll thisMonth lastMonth cat =
     (let thisM = monthName thisMonth;
          lastM = monthName lastMonth;
          thisVal = opt_or (Map_get (monthlyBreakdown cat) thisM) 0;
          lastVal = opt_or (Map_get (monthlyBreakdown cat) lastM) 0
      in cat\<lparr>percentage := (if totalAll > 0 then (total cat / totalAll) * 100 else 0),
              growth := (if lastVal > 0 then ((thisVal - lastVal) / lastVal) * 100 else 0)\<rparr>)"

text \<open>
  \<^verbatim>\<open>sort((a, b) => b.total - a.total)\<close> is a stable sort by descending total, as is
  \<open>sort_key\<close> on the negated total.
\<close>

definition getCategorySummaries :: "Date \<Rightarrow> Expense list \<Rightarrow> CategorySummary list" where
  "getCategorySummaries now exps =
     (let totalAll = sum_by e_amount exps;
          catMap = fold addToCategory exps [];
          thisMonth = getMonth now;
          lastMonth = (if thisMonth = 0 then 11 else thisMonth - 1);
          catMap' = map (\<lambda>(key, cat). (key, calcPercentage totalAll thisMonth lastMonth cat)) catMap
      in sort_key (\<lambda>c. - total c) (Map_values catMap'))"

text \<open>
  \<^verbatim>\<open>getYearlySummary\<close>. \<^verbatim>\<open>monthly[0]\<close> is the oldest of the twelve aggregates; the two
  running picks start there and move over the active months.
\<close>

definition getYearlySummary :: "Date \<Rightarrow> Income list \<Rightarrow> Expense list \<Rightarrow> YearlySummary" where
  "getYearlySummary now incs exps =
     (let totalIncome' = sum_by i_amount incs;
          totalExpenses' = sum_by e_amount exps;
          totalSavings' = totalIncome' - totalExpenses';
          savingsRate' = (if totalIncome' > 0 then (totalSavings' / totalIncome') * 100 else 0);
          categories = getCategorySummaries now exps;
          monthly = getMonthlyAggregates now incs exps;
          activeMonths = filter isActive monthly;
          bestMonth' = fold (\<lambda>m b. if savingsRate m > savingsRate b then m else b) activeMonths (hd monthly);
          worstMonth' = fold (\<lambda>m w. if expenses m > expenses w then m else w) activeMonths (hd monthly)
      in \<lparr>totalIncome = totalIncome',
          totalExpenses = totalExpenses',
          totalSavings = totalSavings',
          y_savingsRate = savingsRate',
          highestSpendingCategory =
            (case categories of [] \<Rightarrow> ''N/A'' | highestCat # _ \<Rightarrow> str_or (category highestCat) ''N/A''),
          highestSpendingAmount =
            (case categories of [] \<Rightarrow> 0 | highestCat # _ \<Rightarrow> num_or (total highestCat) 0),
          bestMonth = (case monthly of [] \<Rightarrow> ''N/A'' | _ # _ \<Rightarrow> str_or (month bestMonth') ''N/A''),
          worstMonth = (case monthly of [] \<Rightarrow> ''N/A'' | _ # _ \<Rightarrow> str_or (month worstMonth') ''N/A''),
          averageMonthlyExpense =
            (if length activeMonths > 0 then totalExpenses' / of_nat (length activeMonths) else 0),
          averageMonthlyIncome =
            (if length activeMonths > 0 then totalIncome' / of_nat (length activeMonths) else 0),
          monthsTracked = length activeMonths\<rparr>)"

text \<open>
  \<^verbatim>\<open>getFinancialHealthScore\<close>. Here \<open>activeMonths\<close> are the months with expenses; the
  average divides by their number only when there are at least two.
\<close>

definition gradeOf :: "int \<Rightarrow> Grade" where
  "gradeOf s = (if s \<ge> 85 then Grade_A else if s \<ge> 70 then Grade_B
                else if s \<ge> 55 then Grade_C else if s \<ge> 40 then Grade_D else Grade_F)"

definition getFinancialHealthScore :: "Date \<Rightarrow> Income list \<Rightarrow> Expense list \<Rightarrow> FinancialHealthScore" where
  "getFinancialHealthScore now incs exps =
     (let yearly = getYearlySummary now incs exps;
          categories = getCategorySummaries now exps;
          monthly = getMonthlyAggregates now incs exps;
          savingsScore = min 100 (max 0 (y_savingsRate yearly * (333 / 100)));
          maxCatPct = (case categories of [] \<Rightarrow> 0 | c # _ \<Rightarrow> num_or (percentage c) 0);
          diversityScore = max 0 (100 - maxCatPct);
          activeMonths = filter (\<lambda>m. expenses m > 0) monthly;
          consistencyScore =
            (if length activeMonths > 1
             then let avg = sum_by expenses activeMonths / of_nat (length activeMonths);
                      variance = sum_by (\<lambda>m. Math_pow (expenses m - avg) 2) activeMonths
                                   / of_nat (length activeMonths);
                      cv = (if avg > 0 then sqrt variance / avg else 0)
                  in max 0 (min 100 (100 - cv * 100))
             else 80);
          incomeMonths = filter (\<lambda>m. income m > 0) monthly;
          incomeStability = (if length incomeMonths \<ge> 3 then 80 else of_nat (length incomeMonths) * 25);
          trendScore =
            (if length activeMonths \<ge> 2
             then let last' = activeMonths ! (length activeMonths - 1);
                      prev = activeMonths ! (length activeMonths - 2)
                  in if savingsRate last' > savingsRate prev then 90
                     else if savingsRate last' < savingsRate prev then 20 else 50
             else 50);
          factors' = [\<lparr>label = ''Savings Rate'', f_score = savingsScore, weight = 35 / 100\<rparr>,
                      \<lparr>label = ''Expense Diversity'', f_score = diversityScore, weight = 2 / 10\<rparr>,
                      \<lparr>label = ''Spending Consistency'', f_score = consistencyScore, weight = 2 / 10\<rparr>,
                      \<lparr>label = ''Income Stability'', f_score = incomeStability, weight = 15 / 100\<rparr>,
                      \<lparr>label = ''Financial Trend'', f_score = trendScore, weight = 1 / 10\<rparr>];
          score' = Math_round (sum_by (\<lambda>f. f_score f * weight f) factors')
      in \<lparr>score = score', grade = gradeOf score', factors = factors'\<rparr>)"

text \<open>
  \<^verbatim>\<open>getPredictions\<close>. \<^verbatim>\<open>active.slice(-3)\<close> is the last three active months, or all of them
  when there are fewer. Past the early return there are at least two active months, so
  \<open>totalWeight\<close> and \<open>length last3\<close> are positive.
\<close>

definition classifyTrend :: "number \<Rightarrow> Trend" where
  "classifyTrend savingsTrend =
     (if savingsTrend > 3 then improving else if savingsTrend < - 3 then declining else stable)"

definition getPredictions :: "Date \<Rightarrow> Income list \<Rightarrow> Expense list \<Rightarrow> Prediction" where
  "getPredictions now incs exps =
     (let monthly = getMonthlyAggregates now incs exps;
          active = filter isActive monthly
      in if length active < 2
         then \<lparr>nextMonthIncome = 0, nextMonthExpense = 0, nextMonthSavingsRate = 0,
               threeMonthProjection = [], trend = stable\<rparr>
         else
          (let weights = map (\<lambda>i. of_nat (i + 1)) [0 ..< length active];
               totalWeight = sum_by (\<lambda>w. w) weights;
               avgIncome = sum_by (\<lambda>(m, w). income m * w) (zip active weights) / totalWeight;
               avgExpense = sum_by (\<lambda>(m, w). expenses m * w) (zip active weights) / totalWeight;
               last3 = drop (length active - 3) active;
               incomeGrowth =
                 (if length last3 \<ge> 2
                  then (income (last3 ! (length last3 - 1)) - income (last3 ! 0))
                         / max (income (last3 ! 0)) 1 / of_nat (length last3)
                  else 0);
               expenseGrowth =
                 (if length last3 \<ge> 2
                  then (expenses (last3 ! (length last3 - 1)) - expenses (last3 ! 0))
                         / max (expenses (last3 ! 0)) 1 / of_nat (length last3)
                  else 0);
               projection = map (\<lambda>i.
                    let d = newDate (getFullYear now) (getMonth now + i);
                        income' = of_int (Math_round (avgIncome * (1 + incomeGrowth * of_int i)));
                        exp' = of_int (Math_round (avgExpense * (1 + expenseGrowth * of_int i)))
                    in \<lparr>p_month = monthName (getMonth d), p_income = income',
                        p_expenses = exp', p_savings = income' - exp'\<rparr>) [1 .. 3];
               nextIncome = (case projection of [] \<Rightarrow> 0 | p # _ \<Rightarrow> num_or (p_income p) 0);
               nextExpense = (case projection of [] \<Rightarrow> 0 | p # _ \<Rightarrow> num_or (p_expenses p) 0);
               nextSavingsRate =
                 (if nextIncome > 0 then ((nextIncome - nextExpense) / nextIncome) * 100 else 0);
               savingsTrend =
                 (if length last3 \<ge> 2
                  then savingsRate (last3 ! (length last3 - 1)) - savingsRate (last3 ! 0)
                  else 0)
           in \<lparr>nextMonthIncome = nextIncome,
               nextMonthExpense = nextExpense,
               nextMonthSavingsRate = nextSavingsRate,
               threeMonthProjection = projection,
               trend = classifyTrend savingsTrend\<rparr>))"

section \<open>Insight rule engine\<close>

text \<open>
  An insight is a severity and a message. The message texts contain currency signs and
  pictographs and are not reproduced: a message is the template that built it, named by
  its line in \<^verbatim>\<open>insights.ts\<close>, together with the values interpolated into it, in order.
  \<open>Fmt n\<close> is \<^verbatim>\<open>fmt(x)\<close>, the rupee sign and the locale's digits of \<open>n = |Math.round x|\<close>;
  \<open>Pct x\<close> is \<^verbatim>\<open>pct(x)\<close>, that is \<^verbatim>\<open>x.toFixed(1)\<close> and a percent sign.
\<close>

datatype JsNumber = Finite number | PlusInfinity | MinusInfinity | NaN

text \<open>
  Division, multiplication by a constant and comparison where the divisor is not guarded
  in the source and the quotient can be infinite.
\<close>

definition js_div :: "number \<Rightarrow> number \<Rightarrow> JsNumber" where
  "js_div a b = (if b \<noteq> 0 then Finite (a / b)
                 else if a > 0 then PlusInfinity else if a < 0 then MinusInfinity else NaN)"

definition js_mul :: "JsNumber \<Rightarrow> number \<Rightarrow> JsNumber" where
  "js_mul x c = (case x of
       Finite a \<Rightarrow> Finite (a * c)
     | PlusInfinity \<Rightarrow> (if c > 0 then PlusInfinity else if c < 0 then MinusInfinity else NaN)
     | MinusInfinity \<Rightarrow> (if c > 0 then MinusInfinity else if c < 0 then PlusInfinity else NaN)
     | NaN \<Rightarrow> NaN)"

definition js_gt :: "JsNumber \<Rightarrow> number \<Rightarrow> bool" where
  "js_gt x c = (case x of Finite a \<Rightarrow> a > c | PlusInfinity \<Rightarrow> True | _ \<Rightarrow> False)"

datatype Arg = Fmt int | Pct JsNumber | Str string | Num int | Joined "string list"

datatype Message = Msg nat "Arg list"

datatype InsightType = warning | danger | success | info

record AIInsight =
  type :: InsightType
  message :: Message

definition fmtRupees :: "number \<Rightarrow> Arg" where
  "fmtRupees n = Fmt \<bar>Math_round n\<bar>"

definition pct :: "number \<Rightarrow> Arg" where
  "pct n = Pct (Finite n)"

definition gradeName :: "Grade \<Rightarrow> string" where
  "gradeName g = (case g of Grade_A \<Rightarrow> ''A'' | Grade_B \<Rightarrow> ''B'' | Grade_C \<Rightarrow> ''C''
                   | Grade_D \<Rightarrow> ''D'' | Grade_F \<Rightarrow> ''F'')"

text \<open>\<open>push t l args\<close> is one \<^verbatim>\<open>insights.push\<close>; \<open>guard c xs\<close> is an \<^verbatim>\<open>if\<close> without \<^verbatim>\<open>else\<close>.\<close>

definition push :: "InsightType \<Rightarrow> nat \<Rightarrow> Arg list \<Rightarrow> AIInsight list" where
  "push t l args = [\<lparr>type = t, message = Msg l args\<rparr>]"

definition guard :: "bool \<Rightarrow> AIInsight list \<Rightarrow> AIInsight list" where
  "guard c xs = (if c then xs else [])"

definition savingsPerformance :: "number \<Rightarrow> number \<Rightarrow> YearlySummary \<Rightarrow> AIInsight list" where
  "savingsPerformance balance rate yearly =
     guard (rate < 0) (push danger 45 [fmtRupees \<bar>balance\<bar>] @ push danger 46 [])
   @ guard (rate \<ge> 0 \<and> rate < 5) (push danger 49 [pct rate] @ push warning 50 [])
   @ guard (rate \<ge> 5 \<and> rate < 10) (push warning 53 [pct rate])
   @ guard (rate \<ge> 10 \<and> rate < 20) (push warning 56 [pct rate] @ push info 57 [])
   @ guard (rate \<ge> 20 \<and> rate < 35) (push success 60 [pct rate] @ push success 61 [])
   @ guard (rate \<ge> 35 \<and> rate < 50) (push success 64 [pct rate] @ push info 65 [])
   @ guard (rate \<ge> 50) (push success 68 [pct rate] @ push info 69 [])
   @ guard (balance > 0) (push success 72 [fmtRupees balance])
   @ guard (totalSavings yearly \<ge> 100000) (push success 76 [])
   @ guard (totalSavings yearly \<ge> 50000 \<and> totalSavings yearly < 100000)
       (push success 77 [fmtRupees (totalSavings yearly)])
   @ guard (totalSavings yearly \<ge> 10000 \<and> totalSavings yearly < 50000)
       (push info 78 [fmtRupees (totalSavings yearly)])"

definition overspendingWarnings :: "CategorySummary list \<Rightarrow> number \<Rightarrow> number \<Rightarrow> AIInsight list" where
  "overspendingWarnings categories income' expenses' =
     concat (map (\<lambda>cat.
         guard (percentage cat > 50) (push danger 84 [Str (category cat), pct (percentage cat)])
       @ guard (percentage cat > 30 \<and> percentage cat \<le> 50)
           (push warning 87 [Str (category cat), pct (percentage cat)])
       @ guard (percentage cat > 20 \<and> percentage cat \<le> 30)
           (push info 90 [Str (category cat), pct (percentage cat)])) categories)
   @ guard (length categories > 0)
       (push info 95 [Str (category (categories ! 0)), fmtRupees (total (categories ! 0))])
   @ guard (length categories \<ge> 2)
       (push info 98 [Str (category (categories ! 0)), Str (category (categories ! 1)),
                      pct (percentage (categories ! 0) + percentage (categories ! 1))])
   @ guard (expenses' > income' * (9 / 10)) (push danger 101 [])"

definition categorySpikes :: "CategorySummary list \<Rightarrow> AIInsight list" where
  "categorySpikes categories =
     concat (map (\<lambda>cat.
         if growth cat > 50 then push danger 108 [Str (category cat), pct (growth cat)]
         else if growth cat > 20 then push warning 110 [Str (category cat), pct (growth cat)]
         else if growth cat < - 20 then push success 112 [Str (category cat), pct \<bar>growth cat\<bar>]
         else []) categories)"

text \<open>
  Month over month. The previous month's expenses divide without a guard: an active
  month can have income only, and then the increase is infinite.
\<close>

definition monthOverMonth :: "MonthlyAggregate list \<Rightarrow> AIInsight list" where
  "monthOverMonth active =
     guard (length active \<ge> 2)
       (let last' = active ! (length active - 1);
            prev = active ! (length active - 2)
        in (if expenses last' > expenses prev
            then let inc = js_mul (js_div (expenses last' - expenses prev) (expenses prev)) 100
                 in push warning 124 [Pct inc, Str (month prev), Str (month last')]
                  @ guard (js_gt inc 30) (push danger 125 [Pct inc])
            else if expenses last' < expenses prev
            then let dec = js_mul (js_div (expenses prev - expenses last') (expenses prev)) 100
                 in push success 128 [Pct dec, Str (month prev), Str (month last')]
            else [])
         @ (if income last' > income prev
            then push success 132 [Str (month prev), Str (month last')]
            else if income last' < income prev \<and> income last' > 0
            then push warning 134 [Str (month prev)]
            else [])
         @ guard (savingsRate last' > savingsRate prev + 5)
             (push success 138 [pct (savingsRate last' - savingsRate prev)])
         @ guard (savingsRate last' < savingsRate prev - 5)
             (push warning 141 [pct (savingsRate prev - savingsRate last')]))"

definition bestWorstMonth :: "MonthlyAggregate list \<Rightarrow> AIInsight list" where
  "bestWorstMonth active =
     guard (length active \<ge> 3)
       (case (reduce1 (\<lambda>a b. if savingsRate a > savingsRate b then a else b) active,
              reduce1 (\<lambda>a b. if expenses a > expenses b then a else b) active,
              reduce1 (\<lambda>a b. if expenses a < expenses b \<and> expenses a > 0 then a else b) active) of
          (Some best, Some worst, Some lowestExpense) \<Rightarrow>
            push success 152 [Str (month best), pct (savingsRate best)]
          @ push warning 153 [Str (month worst), fmtRupees (expenses worst)]
          @ guard (expenses lowestExpense > 0)
              (push success 155 [Str (month lowestExpense), fmtRupees (expenses lowestExpense)])
          @ (let avgExpense = sum_by expenses active / of_nat (length active);
                 aboveAvg = filter (\<lambda>m. expenses m > avgExpense * (12 / 10)) active
             in guard (length aboveAvg > 0) (push info 161 [Num (int (length aboveAvg))]))
        | _ \<Rightarrow> [])"

text \<open>
  Spending consistency. When no active month has expenses, \<open>expValues\<close> is empty and the
  source's average is \<^verbatim>\<open>0/0\<close>, which fails \<^verbatim>\<open>avg > 0\<close>; so does the \<open>0\<close> of the model.
\<close>

definition spendingConsistency :: "MonthlyAggregate list \<Rightarrow> AIInsight list" where
  "spendingConsistency active =
     guard (length active \<ge> 3)
       (let expValues = filter (\<lambda>v. v > 0) (map expenses active);
            avg = sum_by (\<lambda>v. v) expValues / of_nat (length expValues);
            variance = sum_by (\<lambda>v. Math_pow (v - avg) 2) expValues / of_nat (length expValues);
            cv = (if avg > 0 then sqrt variance / avg else 0)
        in if cv < 15 / 100 then push success 174 []
           else if cv < 3 / 10 then push info 176 []
           else push warning 178 [] @ push info 179 [])"

definition riskAlerts ::
  "YearlySummary \<Rightarrow> CategorySummary list \<Rightarrow> Income list \<Rightarrow> Expense list
    \<Rightarrow> MonthlyAggregate list \<Rightarrow> number \<Rightarrow> AIInsight list" where
  "riskAlerts yearly categories incs exps active balance =
     guard (averageMonthlyExpense yearly > averageMonthlyIncome yearly * (95 / 100)) (push danger 186 [])
   @ guard (length categories = 1) (push warning 189 [])
   @ guard (length incs < 3 \<and> length exps > 10) (push warning 192 [])
   @ guard (monthsTracked yearly < 3) (push info 195 [])
   @ (let noIncomeMonths = filter (\<lambda>m. income m = 0 \<and> expenses m > 0) active
      in guard (length noIncomeMonths > 0) (push warning 199 [Num (int (length noIncomeMonths))]))
   @ guard (balance > 0 \<and> balance < averageMonthlyExpense yearly * 3)
       (push warning 204 [fmtRupees (averageMonthlyExpense yearly * 6)])
   @ guard (balance \<ge> averageMonthlyExpense yearly * 6 \<and> averageMonthlyExpense yearly > 0)
       (push success 207 [])"

definition positiveReinforcement ::
  "FinancialHealthScore \<Rightarrow> CurrentMonthStats \<Rightarrow> number \<Rightarrow> MonthlyAggregate list \<Rightarrow> AIInsight list" where
  "positiveReinforcement health currentMonth rate active =
     (if score health \<ge> 80 then push success 213 [Num (score health), Str (gradeName (grade health))]
      else if score health \<ge> 60 then push info 215 [Num (score health), Str (gradeName (grade health))]
      else push warning 217 [Num (score health), Str (gradeName (grade health))])
   @ guard (c_savingsRate currentMonth > rate) (push success 221 [pct (c_savingsRate currentMonth)])
   @ (let consecutiveSaving = length (filter (\<lambda>m. savings m > 0) active)
      in if consecutiveSaving \<ge> 6 then push success 226 [Num (int consecutiveSaving)]
         else if consecutiveSaving \<ge> 3 then push success 228 [Num (int consecutiveSaving)]
         else [])"

text \<open>The message of line 241 is an ordinary string: nothing is interpolated into it.\<close>

definition investmentSuggestions :: "number \<Rightarrow> number \<Rightarrow> AIInsight list" where
  "investmentSuggestions rate balance =
     guard (rate \<ge> 20 \<and> balance \<ge> 10000) (push info 234 [] @ push info 235 [])
   @ guard (rate \<ge> 30) (push info 238 [])
   @ guard (balance \<ge> 50000) (push info 241 [])"

definition predictionInsights :: "Prediction \<Rightarrow> AIInsight list" where
  "predictionInsights predictions =
     guard (nextMonthIncome predictions > 0)
       (push info 247 [fmtRupees (nextMonthIncome predictions), fmtRupees (nextMonthExpense predictions)]
        @ guard (nextMonthSavingsRate predictions > 0)
            (push info 249 [pct (nextMonthSavingsRate predictions)]))
   @ (if trend predictions = improving then push success 253 []
      else if trend predictions = declining then push warning 255 []
      else [])"

definition findCategory :: "string \<Rightarrow> CategorySummary list \<Rightarrow> CategorySummary option" where
  "findCategory name categories = find (\<lambda>c. category c = name) categories"

definition expensePatterns :: "CategorySummary list \<Rightarrow> AIInsight list" where
  "expensePatterns categories =
     (case findCategory ''Food'' categories of
        Some foodCat \<Rightarrow> guard (percentage foodCat > 35) (push warning 267 [pct (percentage foodCat)])
      | None \<Rightarrow> [])
   @ (case findCategory ''Transport'' categories of
        Some transportCat \<Rightarrow>
          guard (percentage transportCat > 15) (push info 270 [pct (percentage transportCat)])
      | None \<Rightarrow> [])
   @ (case findCategory ''Entertainment'' categories of
        Some entertainmentCat \<Rightarrow>
          guard (percentage entertainmentCat > 15) (push info 273 [pct (percentage entertainmentCat)])
      | None \<Rightarrow> [])
   @ (case findCategory ''Bills'' categories of
        Some billsCat \<Rightarrow> guard (percentage billsCat > 40) (push warning 276 [pct (percentage billsCat)])
      | None \<Rightarrow> [])
   @ (case findCategory ''Shopping'' categories of
        Some shoppingCat \<Rightarrow>
          guard (percentage shoppingCat > 20) (push warning 279 [pct (percentage shoppingCat)])
      | None \<Rightarrow> [])"

definition anomalyDetection ::
  "MonthlyAggregate list \<Rightarrow> YearlySummary \<Rightarrow> CategorySummary list \<Rightarrow> AIInsight list" where
  "anomalyDetection active yearly categories =
     guard (length active \<ge> 3)
       (let avgExp = sum_by expenses active / of_nat (length active);
            last' = active ! (length active - 1)
        in guard (expenses last' > avgExp * (15 / 10)) (push danger 288 [Str (month last')])
         @ guard (income last' > 0 \<and> income last' > averageMonthlyIncome yearly * (15 / 10))
             (push success 291 [Str (month last')])
         @ guard (length categories > 4) (push info 296 [Num (int (length categories))]))"

definition budgetBreach :: "YearlySummary \<Rightarrow> CurrentMonthStats \<Rightarrow> string \<Rightarrow> AIInsight list" where
  "budgetBreach yearly currentMonth thisMonthName =
     (let monthlyBudget50 = num_or (averageMonthlyIncome yearly) (c_income currentMonth) * (5 / 10)
      in guard (c_expenses currentMonth > monthlyBudget50 \<and> monthlyBudget50 > 0)
           (push warning 304 [fmtRupees (c_expenses currentMonth)]))
   @ guard (c_expenses currentMonth > c_income currentMonth \<and> c_income currentMonth > 0)
       (push danger 307 [Str thisMonthName, fmtRupees (c_expenses currentMonth),
                         fmtRupees (c_income currentMonth)])"

definition needsRule :: "number \<Rightarrow> CategorySummary list \<Rightarrow> AIInsight list" where
  "needsRule income' categories =
     guard (income' > 0)
       (let needsCats = filter (\<lambda>c. category c \<in> set [''Food'', ''Bills'', ''Transport'']) categories;
            needsTotal = sum_by total needsCats;
            needsPct = (needsTotal / income') * 100
        in if needsPct > 50 then push warning 316 [pct needsPct]
           else push success 318 [pct needsPct])"

definition categoryGrowthTrends :: "CategorySummary list \<Rightarrow> AIInsight list" where
  "categoryGrowthTrends categories =
     (let growingCats = filter (\<lambda>c. growth c > 10) categories;
          shrinkingCats = filter (\<lambda>c. growth c < - 10) categories
      in guard (length growingCats > 0) (push warning 328 [Joined (map category growingCats)])
       @ guard (length shrinkingCats > 0) (push success 331 [Joined (map category shrinkingCats)]))"

definition generalTips :: "AIInsight list" where
  "generalTips = push info 336 [] @ push info 337 [] @ push info 338 []"

text \<open>
  \<^verbatim>\<open>generateInsights\<close> of the insight engine: the short-circuit on an empty ledger, then
  the rule groups in the order of the source.
\<close>

definition generateInsights :: "Date \<Rightarrow> Income list \<Rightarrow> Expense list \<Rightarrow> AIInsight list" where
  "generateInsights now incs exps =
     (let totalIncome' = sum_by i_amount incs;
          totalExpenses' = sum_by e_amount exps
      in if totalIncome' = 0 \<and> totalExpenses' = 0
         then push info 27 []
         else
          (let balance = totalIncome' - totalExpenses';
               savingsRate' = (if totalIncome' > 0 then (balance / totalIncome') * 100 else 0);
               yearly = getYearlySummary now incs exps;
               monthly = getMonthlyAggregates now incs exps;
               categories = getCategorySummaries now exps;
               health = getFinancialHealthScore now incs exps;
               currentMonth = getCurrentMonthStats now incs exps;
               predictions = getPredictions now incs exps;
               active = filter isActive monthly;
               thisMonthName = monthName (getMonth now)
           in savingsPerformance balance savingsRate' yearly
            @ overspendingWarnings categories totalIncome' totalExpenses'
            @ categorySpikes categories
            @ monthOverMonth active
            @ bestWorstMonth active
            @ spendingConsistency active
            @ riskAlerts yearly categories incs exps active balance
            @ positiveReinforcement health currentMonth savingsRate' active
            @ investmentSuggestions savingsRate' balance
            @ predictionInsights predictions
            @ expensePatterns categories
            @ anomalyDetection active yearly categories
            @ budgetBreach yearly currentMonth thisMonthName
            @ needsRule totalIncome' categories
            @ categoryGrowthTrends categories
            @ generalTips))"

section \<open>The trend rule as the specification words it\<close>

text \<open>
  The specification describes the trend as the savings rate of the most recent active
  month against that of the active month three positions back, or of the oldest active
  month when it is fewer than three positions away. \<open>specTrend\<close> follows these words; it
  is compared with what \<open>getPredictions\<close> computes.
\<close>

definition specTrend :: "MonthlyAggregate list \<Rightarrow> Trend" where
  "specTrend active =
     (let n = length active;
          latest = active ! (n - 1);
          reference = (if n - 1 \<ge> 3 then active ! (n - 1 - 3) else active ! 0)
      in classifyTrend (savingsRate latest - savingsRate reference))"

section \<open>Concrete ledgers and purchases\<close>

text \<open>
  Two readings of the wall clock in June 2024 (month \<open>12 * 2024 + 5\<close>), and a ledger with
  income 100 in each of March to June 2024 and expenses 100, 50, 50, 50.
\<close>

definition june2024 :: Date where
  "june2024 = \<lparr>monthCount = 24293, dayOfMonth = 15, msOfDay = 0\<rparr>"

definition lateJune2024 :: Date where
  "lateJune2024 = \<lparr>monthCount = 24293, dayOfMonth = 28, msOfDay = 43200000\<rparr>"

definition incomeIn :: "int \<Rightarrow> number \<Rightarrow> Income" where
  "incomeIn m a = \<lparr>i_id = [], i_userId = [], i_amount = a, i_source = ''Salary'',
                   i_date = \<lparr>monthCount = m, dayOfMonth = 1, msOfDay = 0\<rparr>\<rparr>"

definition expenseIn :: "int \<Rightarrow> number \<Rightarrow> ExpenseCategory \<Rightarrow> Expense" where
  "expenseIn m a c = \<lparr>e_id = [], e_userId = [], e_amount = a, e_category = c, e_description = [],
                      e_date = \<lparr>monthCount = m, dayOfMonth = 1, msOfDay = 0\<rparr>\<rparr>"

definition fourMonthsIncome :: "Income list" where
  "fourMonthsIncome = [incomeIn 24290 100, incomeIn 24291 100, incomeIn 24292 100, incomeIn 24293 100]"

definition fourMonthsExpenses :: "Expense list" where
  "fourMonthsExpenses = [expenseIn 24290 100 Food, expenseIn 24291 50 Bills,
                         expenseIn 24292 50 Food, expenseIn 24293 50 Food]"

text \<open>The purchase at the 40 percent boundary of the EMI burden.\<close>

definition boundaryProfile :: FinancialProfile where
  "boundaryProfile = \<lparr>monthlyIncome = 60000, monthlyExpenses = 30000, monthlyRoutineBills = 5000,
                       existingSavings = 0, extraSavingPerMonth = 0\<rparr>"

definition boundaryPurchase :: PurchaseDetails where
  "boundaryPurchase = \<lparr>itemName = ''item'', actualPrice = 120000, mode = Mode_emi,
                        downPayment = Some 0, emiTenureMonths = Some 12, interestRate = Some 0,
                        startDate = NoStartDate, monthlySavingForPurchase = None\<rparr>"

text \<open>
  A host in the UTC time zone. A purchase of 10 saved for at 5 a month, the same with a
  monthly saving of \<open>- 1\<close>, a purchase of 10,000,000 with no monthly saving set, and a
  purchase of 10 at 10 a month starting on 31 January 2024.
\<close>

definition utcZone :: "int \<Rightarrow> int" where
  "utcZone t = 0"

definition noSavingsProfile :: FinancialProfile where
  "noSavingsProfile = \<lparr>monthlyIncome = 100, monthlyExpenses = 50, monthlyRoutineBills = 10,
                        existingSavings = 0, extraSavingPerMonth = 0\<rparr>"





definition hugePurchase :: PurchaseDetails where
  "hugePurchase = \<lparr>itemName = ''item'', actualPrice = 10000000, mode = Mode_savings,
                    downPayment = None, emiTenureMonths = None, interestRate = None,
                    startDate = NoStartDate, monthlySavingForPurchase = None\<rparr>"

definition endOfJanuaryPurchase :: PurchaseDetails where
  "endOfJanuaryPurchase = \<lparr>itemName = ''item'', actualPrice = 10, mode = Mode_savings,
                            downPayment = None, emiTenureMonths = None, interestRate = None,
                            startDate = ParsedStartDate \<lparr>monthCount = 24288, dayOfMonth = 31, msOfDay = 0\<rparr>,
                            monthlySavingForPurchase = Some 10\<rparr>"

section \<open>Properties of the purchase planner\<close>

text \<open>
  Claim C8. For every principal \<open>P\<close> and every tenure \<open>n > 0\<close>, \<open>calculateEMI P 0 n\<close> is
  exactly \<open>P / n\<close> (the zero-interest boundary).
\<close>

theorem calculateEMI_zero_rate:
  "0 < n \<Longrightarrow> calculateEMI P 0 n = P / n"
  by (simp add: calculateEMI_def)

theorem calculateEMI_zero_rate_witness:
  "(0::real) < 12 \<and> calculateEMI 120000 0 12 = 10000"
  using calculateEMI_zero_rate [of 12 120000] by simp

text \<open>The analysis of the boundary purchase, field by field.\<close>

lemma analyzeEMI_boundary:
  "analyzeEMI boundaryProfile boundaryPurchase =
     \<lparr>emiAmount = 10000, totalAmountWithInterest = 120000, totalInterestPaid = 0,
      emiBurdenPercent = 40, newSavingsRate = 25, isAffordable = False,
      impactOnYearlySavings = 120000, disposableIncome = 25000, emiToDisposableRatio = 4 / 10\<rparr>"
  by (simp add: analyzeEMI_def boundaryProfile_def boundaryPurchase_def calculateEMI_def
        opt_or_def num_or_def fmt_def Math_round_def Let_def)

text \<open>
  Claim C1, as stated: for the profile with income 60000, expenses 30000, bills 5000 and
  the purchase of 120000 over 12 months at rate 0, \<open>analyzeEMI\<close> returns \<open>emiAmount = 10000\<close>
  and \<open>isAffordable = true\<close>. It does not: the burden is exactly 40 and the test is
  \<open>emiBurden < 40\<close>.
\<close>

theorem analyzeEMI_boundary_counterexample:
  "\<not> (emiAmount (analyzeEMI boundaryProfile boundaryPurchase) = 10000
      \<and> isAffordable (analyzeEMI boundaryProfile boundaryPurchase))"
  by (simp add: analyzeEMI_boundary)

text \<open>
  Claim C1, amended: for that profile and purchase \<open>analyzeEMI\<close> returns
  \<open>emiAmount = 10000\<close>, disposable income 25000, an EMI burden of exactly 40 percent, and
  \<open>isAffordable = false\<close>, since the flag is set only when the burden is strictly below 40.
\<close>

theorem analyzeEMI_boundary_not_affordable:
  "emiAmount (analyzeEMI boundaryProfile boundaryPurchase) = 10000
   \<and> disposableIncome (analyzeEMI boundaryProfile boundaryPurchase) = 25000
   \<and> emiBurdenPercent (analyzeEMI boundaryProfile boundaryPurchase) = 40
   \<and> \<not> isAffordable (analyzeEMI boundaryProfile boundaryPurchase)"
  by (simp add: analyzeEMI_boundary)












text \<open>
  The two behaviours of the date: with no monthly saving set the saving used is 1, a price
  of 10,000,000 needs 10,000,000 months, the projected date lies past the year 275760 and
  \<^verbatim>\<open>toISOString\<close> raises; and one month after 31 January 2024 is 2 March 2024.
\<close>

lemma saving_huge:
  "monthsReqFor noSavingsProfile hugePurchase = 10000000"
  "monthlySavingFor noSavingsProfile hugePurchase = 1"
  by (simp_all add: monthsReqFor_def monthlySavingFor_def noSavingsProfile_def
        hugePurchase_def opt_or_def num_or_def Math_ceil_def Let_def)

lemma analyzeSavings_huge:
  "analyzeSavings utcZone june2024 noSavingsProfile hugePurchase = Inl RangeError"
proof -
  have "projDateFor june2024 noSavingsProfile hugePurchase
      = Some \<lparr>monthCount = 10024293, dayOfMonth = 15, msOfDay = 0\<rparr>"
    unfolding projDateFor_def Let_def saving_huge
    by (simp add: hugePurchase_def june2024_def setMonth_def getMonth_def getFullYear_def)
  moreover have "toISOString utcZone (Some \<lparr>monthCount = 10024293, dayOfMonth = 15, msOfDay = 0\<rparr>)
      = Inl RangeError"
    by code_simp
  ultimately show ?thesis by (simp add: analyzeSavings_def Let_def)
qed

lemma saving_endOfJanuary:
  "monthsReqFor noSavingsProfile endOfJanuaryPurchase = 1"
  by (simp add: monthsReqFor_def monthlySavingFor_def noSavingsProfile_def
        endOfJanuaryPurchase_def opt_or_def num_or_def Math_ceil_def Let_def)

lemma projDate_endOfJanuary:
  "toISOString utcZone (projDateFor june2024 noSavingsProfile endOfJanuaryPurchase)
     = Inr \<lparr>iso_year = 2024, iso_month = 3, iso_day = 2\<rparr>"
proof -
  have "projDateFor june2024 noSavingsProfile endOfJanuaryPurchase
      = Some \<lparr>monthCount = 24289, dayOfMonth = 31, msOfDay = 0\<rparr>"
    unfolding projDateFor_def Let_def saving_endOfJanuary
    by (simp add: endOfJanuaryPurchase_def setMonth_def getMonth_def getFullYear_def)
  moreover have "toISOString utcZone (Some \<lparr>monthCount = 24289, dayOfMonth = 31, msOfDay = 0\<rparr>)
      = Inr \<lparr>iso_year = 2024, iso_month = 3, iso_day = 2\<rparr>"
    by code_simp
  ultimately show ?thesis by simp
qed

lemma analyzeSavings_invalid_start:
  "analyzeSavings tz now profile (details\<lparr>startDate := InvalidStartDate\<rparr>) = Inl RangeError"
  by (simp add: analyzeSavings_def projDateFor_def toISOString_def Let_def)




section \<open>Maps and sums\<close>

lemma sum_by_fold: "fold (\<lambda>x s. s + f x) xs a = a + sum_list (map f xs)"
  by (induction xs arbitrary: a) (simp_all add: algebra_simps)

lemma sum_by_sum_list: "sum_by f xs = sum_list (map f xs)"
  by (simp add: sum_by_def sum_by_fold)





text \<open>Setting a key changes the sum of a field over the values by the difference at that key.\<close>

lemma Map_set_sum:
  "sum_list (map (\<lambda>p. g (snd p)) (Map_set k v m))
     = sum_list (map (\<lambda>p. g (snd p)) m) + g v - (case Map_get m k of None \<Rightarrow> 0 | Some a \<Rightarrow> g a)"
  for g :: "'v \<Rightarrow> real"
  by (induction m) (auto simp: Map_get_def)


section \<open>Monthly aggregates\<close>




















text \<open>Evaluation on the concrete ledgers.\<close>

lemmas ledger_defs = june2024_def incomeIn_def expenseIn_def fourMonthsIncome_def fourMonthsExpenses_def

lemmas date_defs = getFullYear_def getMonth_def newDate_def monthName_def MONTH_NAMES_def
  getMonthKey_def getMonthLabel_def

lemma upto_0_11: "[0 .. 11::int] = [0, 1, 2, 3, 4, 5, 6, 7, 8, 9, 10, 11]"
  by (simp add: upto.simps)

lemma fourMonths_active:
  "filter isActive (getMonthlyAggregates june2024 fourMonthsIncome fourMonthsExpenses) =
     [\<lparr>month = ''Mar'', monthIndex = 2, year = 2024, income = 100, expenses = 100, savings = 0, savingsRate = 0\<rparr>,
      \<lparr>month = ''Apr'', monthIndex = 3, year = 2024, income = 100, expenses = 50, savings = 50, savingsRate = 50\<rparr>,
      \<lparr>month = ''May'', monthIndex = 4, year = 2024, income = 100, expenses = 50, savings = 50, savingsRate = 50\<rparr>,
      \<lparr>month = ''Jun'', monthIndex = 5, year = 2024, income = 100, expenses = 50, savings = 50, savingsRate = 50\<rparr>]"
  by (simp add: getMonthlyAggregates_def ledger_defs date_defs Let_def initMonth_def upto_0_11
        addIncome_def addExpense_def Map_get_def calcSavings_def Map_values_def isActive_def)

lemma empty_monthly:
  "filter isActive (getMonthlyAggregates june2024 [] []) = []"
  "filter (\<lambda>m. expenses m > 0) (getMonthlyAggregates june2024 [] []) = []"
  "filter (\<lambda>m. income m > 0) (getMonthlyAggregates june2024 [] []) = []"
  by (simp_all add: getMonthlyAggregates_def ledger_defs date_defs Let_def initMonth_def upto_0_11
        calcSavings_def Map_values_def isActive_def)



section \<open>Category summaries\<close>

lemma addToCategory_total:
  "sum_list (map (\<lambda>p. total (snd p)) (addToCategory e m))
     = sum_list (map (\<lambda>p. total (snd p)) m) + e_amount e"
  by (simp add: addToCategory_def Let_def Map_set_sum split: option.splits)

lemma fold_addToCategory_total:
  "sum_list (map (\<lambda>p. total (snd p)) (fold addToCategory exps m))
     = sum_list (map (\<lambda>p. total (snd p)) m) + sum_list (map e_amount exps)"
  by (induction exps arbitrary: m) (simp_all add: addToCategory_total)

lemma sum_list_insort_key:
  "sum_list (map g (insort_key f x xs)) = g x + sum_list (map g xs)" for g :: "'a \<Rightarrow> real"
  by (induction xs) simp_all

lemma sum_list_sort_key:
  "sum_list (map g (sort_key f xs)) = sum_list (map g xs)" for g :: "'a \<Rightarrow> real"
  by (induction xs) (simp_all add: sum_list_insort_key)

lemma calcPercentage_fields:
  "total (calcPercentage t a b c) = total c"
  "category (calcPercentage t a b c) = category c"
  "percentage (calcPercentage t a b c) = (if t > 0 then (total c / t) * 100 else 0)"
  by (simp_all add: calcPercentage_def Let_def)

text \<open>The totals of the categories add up to the total of the expenses.\<close>

lemma categories_total:
  "sum_list (map total (getCategorySummaries now exps)) = sum_by e_amount exps"
  using fold_addToCategory_total [of exps "[]"]
  by (simp add: getCategorySummaries_def Let_def sum_list_sort_key Map_values_def comp_def
        case_prod_beta calcPercentage_fields sum_by_sum_list)

lemma categories_percentage:
  "c \<in> set (getCategorySummaries now exps) \<Longrightarrow>
   percentage c = (if sum_by e_amount exps > 0 then (total c / sum_by e_amount exps) * 100 else 0)"
  by (auto simp: getCategorySummaries_def Let_def Map_values_def calcPercentage_fields)

lemma categories_sorted:
  "sorted (map (\<lambda>c. - total c) (getCategorySummaries now exps))"
  by (simp add: getCategorySummaries_def Let_def)

lemma sum_list_percentage:
  assumes "\<forall>c\<in>set cs. percentage c = (total c / t) * 100"
  shows "sum_list (map percentage cs) = (sum_list (map total cs) / t) * 100"
  using assms by (induction cs) (simp_all add: algebra_simps add_divide_distrib)

lemma fourMonths_total: "sum_by e_amount fourMonthsExpenses = 250"
  by (simp add: sum_by_def fourMonthsExpenses_def expenseIn_def)

text \<open>
  Claim C5. For every expense list with total expenses \<open>> 0\<close> (it is then non-empty), the
  percentages of the summaries returned by \<open>getCategorySummaries\<close> sum to 100, exactly so
  in real arithmetic, and the list is in descending order of total.
\<close>

theorem category_percentages_sum:
  assumes "sum_by e_amount exps > 0"
  shows "sum_by percentage (getCategorySummaries now exps) = 100
       \<and> sorted_wrt (\<lambda>a b. total a \<ge> total b) (getCategorySummaries now exps)"
proof -
  let ?cs = "getCategorySummaries now exps"
  have "\<forall>c\<in>set ?cs. percentage c = (total c / sum_by e_amount exps) * 100"
    using assms by (simp add: categories_percentage)
  then have "sum_list (map percentage ?cs) = (sum_list (map total ?cs) / sum_by e_amount exps) * 100"
    by (rule sum_list_percentage)
  then have p: "sum_by percentage ?cs = 100"
    using assms by (simp add: categories_total sum_by_sum_list)
  have "sorted (map (\<lambda>c. - total c) ?cs)" by (rule categories_sorted)
  then have "sorted_wrt (\<lambda>a b. total a \<ge> total b) ?cs"
    by (simp add: sorted_wrt_map)
  with p show ?thesis by simp
qed

theorem category_percentages_sum_witness:
  "fourMonthsExpenses \<noteq> [] \<and> sum_by e_amount fourMonthsExpenses > 0
   \<and> sum_by percentage (getCategorySummaries june2024 fourMonthsExpenses) = 100
   \<and> sorted_wrt (\<lambda>a b. total a \<ge> total b) (getCategorySummaries june2024 fourMonthsExpenses)"
proof -
  have pos: "sum_by e_amount fourMonthsExpenses > 0" by (simp add: fourMonths_total)
  have ne: "fourMonthsExpenses \<noteq> []" by (simp add: fourMonthsExpenses_def)
  show ?thesis using category_percentages_sum [OF pos, of june2024] pos ne by simp
qed

section \<open>Financial health score\<close>

text \<open>The first of the sorted summaries has the largest total, so its share is not negative.\<close>

lemma categories_head_positive:
  assumes "sum_by e_amount exps > 0" and "getCategorySummaries now exps = c # cs"
  shows "total c > 0"
proof (rule ccontr)
  assume "\<not> total c > 0"
  then have c: "total c \<le> 0" by simp
  have "sorted (map (\<lambda>c. - total c) (c # cs))"
    using categories_sorted [of now exps] assms(2) by simp
  then have "\<forall>d\<in>set cs. total d \<le> total c" by auto
  then have "\<forall>d\<in>set (c # cs). total d \<le> 0" using c by auto
  then have "sum_list (map total (c # cs)) \<le> 0"
    by (intro sum_list_nonpos) auto
  then show False using categories_total [of now exps] assms by simp
qed

lemma categories_head_percentage:
  assumes "getCategorySummaries now exps = c # cs"
  shows "0 \<le> percentage c"
proof (cases "sum_by e_amount exps > 0")
  case True
  have "total c > 0" using True assms by (rule categories_head_positive)
  moreover have "percentage c = (total c / sum_by e_amount exps) * 100"
    using categories_percentage [of c now exps] assms True by simp
  ultimately show ?thesis using True by simp
next
  case False
  then show ?thesis using categories_percentage [of c now exps] assms by simp
qed

lemma num_or_zero: "num_or x 0 = x"
  by (simp add: num_or_def)

lemma health_score_eq:
  "score (getFinancialHealthScore now incs exps)
     = Math_round (sum_by (\<lambda>f. f_score f * weight f) (factors (getFinancialHealthScore now incs exps)))"
  by (simp add: getFinancialHealthScore_def Let_def)

lemma health_grade:
  "grade (getFinancialHealthScore now incs exps) = gradeOf (score (getFinancialHealthScore now incs exps))"
  by (simp add: getFinancialHealthScore_def Let_def)

lemma health_weights:
  "map weight (factors (getFinancialHealthScore now incs exps)) = [35 / 100, 2 / 10, 2 / 10, 15 / 100, 1 / 10]"
  by (simp add: getFinancialHealthScore_def Let_def)

lemma diversity_bounds:
  "0 \<le> max 0 (100 - (case getCategorySummaries now exps of [] \<Rightarrow> 0 | c # x \<Rightarrow> num_or (percentage c) 0))
   \<and> max 0 (100 - (case getCategorySummaries now exps of [] \<Rightarrow> 0 | c # x \<Rightarrow> num_or (percentage c) 0)) \<le> 100"
proof (cases "getCategorySummaries now exps")
  case Nil
  then show ?thesis by simp
next
  case (Cons c cs)
  have "0 \<le> percentage c" using Cons by (rule categories_head_percentage)
  then show ?thesis using Cons by (simp add: num_or_zero)
qed

lemma health_factor_bounds:
  "\<forall>f\<in>set (factors (getFinancialHealthScore now incs exps)). 0 \<le> f_score f \<and> f_score f \<le> 100"
  using diversity_bounds [of now exps]
  by (simp add: getFinancialHealthScore_def Let_def)

lemma weighted_sum_bounds:
  assumes "\<forall>f\<in>set fs. 0 \<le> f_score f \<and> f_score f \<le> 100 \<and> 0 \<le> weight f"
  shows "0 \<le> sum_list (map (\<lambda>f. f_score f * weight f) fs)
       \<and> sum_list (map (\<lambda>f. f_score f * weight f) fs) \<le> 100 * sum_list (map weight fs)"
  using assms
proof (induction fs)
  case Nil
  then show ?case by simp
next
  case (Cons f fs)
  have "0 \<le> f_score f * weight f" using Cons.prems by simp
  moreover have "f_score f * weight f \<le> 100 * weight f"
    using Cons.prems by (simp add: mult_right_mono)
  ultimately show ?case using Cons by (simp add: algebra_simps)
qed

lemma Math_round_bounds: "0 \<le> x \<Longrightarrow> x \<le> 100 \<Longrightarrow> 0 \<le> Math_round x \<and> Math_round x \<le> 100"
  unfolding Math_round_def by (simp add: floor_le_iff le_floor_iff)

text \<open>
  Claim C3. For every pair of income and expense lists, the empty ones included,
  \<open>getFinancialHealthScore\<close> returns a score in \<open>[0, 100]\<close> that is the rounded sum of
  \<open>score * weight\<close> over 5 factors whose weights sum to 1, with grade A from 85, B from 70,
  C from 55, D from 40 and F below; every factor's own score lies in \<open>[0, 100]\<close>.
\<close>

theorem health_score_composite:
  "0 \<le> score (getFinancialHealthScore now incs exps)
   \<and> score (getFinancialHealthScore now incs exps) \<le> 100
   \<and> score (getFinancialHealthScore now incs exps)
       = Math_round (sum_by (\<lambda>f. f_score f * weight f) (factors (getFinancialHealthScore now incs exps)))
   \<and> length (factors (getFinancialHealthScore now incs exps)) = 5
   \<and> sum_by weight (factors (getFinancialHealthScore now incs exps)) = 1
   \<and> grade (getFinancialHealthScore now incs exps)
       = (let s = score (getFinancialHealthScore now incs exps)
          in if s \<ge> 85 then Grade_A else if s \<ge> 70 then Grade_B
             else if s \<ge> 55 then Grade_C else if s \<ge> 40 then Grade_D else Grade_F)
   \<and> (\<forall>f\<in>set (factors (getFinancialHealthScore now incs exps)). 0 \<le> f_score f \<and> f_score f \<le> 100)"
proof -
  let ?h = "getFinancialHealthScore now incs exps"
  have w: "map weight (factors ?h) = [35 / 100, 2 / 10, 2 / 10, 15 / 100, 1 / 10]"
    by (rule health_weights)
  have len: "length (factors ?h) = 5"
    using arg_cong [OF w, of length] by simp
  have wsum: "sum_list (map weight (factors ?h)) = 1" by (simp add: w)
  have wpos: "\<forall>f\<in>set (factors ?h). 0 \<le> weight f"
  proof
    fix f assume "f \<in> set (factors ?h)"
    then have "weight f \<in> set (map weight (factors ?h))" by simp
    then show "0 \<le> weight f" unfolding w by auto
  qed
  have fb: "\<forall>f\<in>set (factors ?h). 0 \<le> f_score f \<and> f_score f \<le> 100"
    by (rule health_factor_bounds)
  have "0 \<le> sum_list (map (\<lambda>f. f_score f * weight f) (factors ?h))
      \<and> sum_list (map (\<lambda>f. f_score f * weight f) (factors ?h)) \<le> 100 * sum_list (map weight (factors ?h))"
    using fb wpos by (intro weighted_sum_bounds) simp
  then have sb: "0 \<le> sum_by (\<lambda>f. f_score f * weight f) (factors ?h)
       \<and> sum_by (\<lambda>f. f_score f * weight f) (factors ?h) \<le> 100"
    by (simp add: wsum sum_by_sum_list)
  have sc: "0 \<le> score ?h \<and> score ?h \<le> 100"
    unfolding health_score_eq using sb by (intro Math_round_bounds) simp_all
  have g: "grade ?h = (let s = score ?h
          in if s \<ge> 85 then Grade_A else if s \<ge> 70 then Grade_B
             else if s \<ge> 55 then Grade_C else if s \<ge> 40 then Grade_D else Grade_F)"
    by (simp only: health_grade gradeOf_def Let_def)
  show ?thesis
    using sc len fb g health_score_eq [of now incs exps] wsum
    by (simp only: sum_by_sum_list simp_thms)
qed

lemma empty_categories: "getCategorySummaries now [] = []"
  by (simp add: getCategorySummaries_def Map_values_def)

lemma empty_yearly_rate: "y_savingsRate (getYearlySummary now [] []) = 0"
  by (simp add: getYearlySummary_def sum_by_def Let_def)

lemma empty_health:
  "getFinancialHealthScore june2024 [] [] =
     \<lparr>score = 41, grade = Grade_D,
      factors = [\<lparr>label = ''Savings Rate'', f_score = 0, weight = 35 / 100\<rparr>,
                 \<lparr>label = ''Expense Diversity'', f_score = 100, weight = 2 / 10\<rparr>,
                 \<lparr>label = ''Spending Consistency'', f_score = 80, weight = 2 / 10\<rparr>,
                 \<lparr>label = ''Income Stability'', f_score = 0, weight = 15 / 100\<rparr>,
                 \<lparr>label = ''Financial Trend'', f_score = 50, weight = 1 / 10\<rparr>]\<rparr>"
  unfolding getFinancialHealthScore_def Let_def empty_monthly empty_categories empty_yearly_rate
  by (simp add: sum_by_def Math_round_def gradeOf_def)

theorem health_score_composite_witness:
  "\<lparr>label = ''Expense Diversity'', f_score = 100, weight = 2 / 10\<rparr>
     \<in> set (factors (getFinancialHealthScore june2024 [] []))
   \<and> 0 \<le> f_score \<lparr>label = ''Expense Diversity'', f_score = 100, weight = 2 / 10\<rparr>
   \<and> f_score \<lparr>label = ''Expense Diversity'', f_score = 100, weight = 2 / 10\<rparr> \<le> 100
   \<and> score (getFinancialHealthScore june2024 [] []) = 41
   \<and> 0 \<le> score (getFinancialHealthScore june2024 [] [])
   \<and> score (getFinancialHealthScore june2024 [] []) \<le> 100
   \<and> grade (getFinancialHealthScore june2024 [] []) = Grade_D"
proof -
  have "\<lparr>label = ''Expense Diversity'', f_score = 100, weight = 2 / 10\<rparr>
      \<in> set (factors (getFinancialHealthScore june2024 [] []))"
    by (simp add: empty_health)
  moreover have "score (getFinancialHealthScore june2024 [] []) = 41
      \<and> grade (getFinancialHealthScore june2024 [] []) = Grade_D"
    by (simp add: empty_health)
  ultimately show ?thesis
    using health_score_composite [of june2024 "[]" "[]"] by blast
qed

section \<open>Predictions\<close>

text \<open>
  Claim C6. When the monthly aggregates hold fewer than 2 active months (income \<open>> 0\<close> or
  expenses \<open>> 0\<close>), \<open>getPredictions\<close> returns the zeroed prediction: next-month income,
  expense and savings rate 0, an empty projection, and trend stable. The function has no
  failing path.
\<close>

theorem predictions_degenerate:
  "length (filter isActive (getMonthlyAggregates now incs exps)) < 2 \<Longrightarrow>
   getPredictions now incs exps =
     \<lparr>nextMonthIncome = 0, nextMonthExpense = 0, nextMonthSavingsRate = 0,
      threeMonthProjection = [], trend = stable\<rparr>"
  by (simp add: getPredictions_def Let_def)

theorem predictions_degenerate_witness:
  "length (filter isActive (getMonthlyAggregates june2024 [] [])) < 2
   \<and> getPredictions june2024 [] [] =
     \<lparr>nextMonthIncome = 0, nextMonthExpense = 0, nextMonthSavingsRate = 0,
      threeMonthProjection = [], trend = stable\<rparr>"
proof -
  have few: "length (filter isActive (getMonthlyAggregates june2024 [] [])) < 2"
    by (simp add: empty_monthly)
  show ?thesis using predictions_degenerate [OF few] few by simp
qed

text \<open>Past the early return, the trend is read off the last three active months.\<close>

lemma trend_last3:
  assumes "\<not> length (filter isActive (getMonthlyAggregates now incs exps)) < 2"
  shows "trend (getPredictions now incs exps) =
     (let last3 = drop (length (filter isActive (getMonthlyAggregates now incs exps)) - 3)
                    (filter isActive (getMonthlyAggregates now incs exps))
      in classifyTrend (if 2 \<le> length last3
           then savingsRate (last3 ! (length last3 - 1)) - savingsRate (last3 ! 0) else 0))"
  unfolding getPredictions_def Let_def
  by (simp only: assms if_False Prediction.select_convs)

lemma fourMonths_enough:
  "2 \<le> length (filter isActive (getMonthlyAggregates june2024 fourMonthsIncome fourMonthsExpenses))"
  by (simp add: fourMonths_active)

lemma fourMonths_trend:
  "trend (getPredictions june2024 fourMonthsIncome fourMonthsExpenses) = stable"
proof -
  have "\<not> length (filter isActive (getMonthlyAggregates june2024 fourMonthsIncome fourMonthsExpenses)) < 2"
    using fourMonths_enough by simp
  then have "trend (getPredictions june2024 fourMonthsIncome fourMonthsExpenses) =
     (let last3 = drop (length (filter isActive (getMonthlyAggregates june2024 fourMonthsIncome fourMonthsExpenses)) - 3)
                    (filter isActive (getMonthlyAggregates june2024 fourMonthsIncome fourMonthsExpenses))
      in classifyTrend (if 2 \<le> length last3
           then savingsRate (last3 ! (length last3 - 1)) - savingsRate (last3 ! 0) else 0))"
    by (rule trend_last3)
  then show ?thesis
    unfolding fourMonths_active by (simp add: classifyTrend_def)
qed

text \<open>
  Claim C2, as stated: with at least 2 active months the trend compares the savings rate
  of the most recent active month with that of the active month 3 positions back (the
  oldest if it is fewer than 3 positions away). On the ledger of four active months with
  savings rates 0, 50, 50, 50 the month 3 positions back has rate 0, which would make the
  trend improving; \<open>getPredictions\<close> compares with the month 2 positions back and answers
  stable.
\<close>

theorem trend_three_back_counterexample:
  "2 \<le> length (filter isActive (getMonthlyAggregates june2024 fourMonthsIncome fourMonthsExpenses))
   \<and> trend (getPredictions june2024 fourMonthsIncome fourMonthsExpenses) = stable
   \<and> specTrend (filter isActive (getMonthlyAggregates june2024 fourMonthsIncome fourMonthsExpenses))
       = improving"
proof -
  have "specTrend (filter isActive (getMonthlyAggregates june2024 fourMonthsIncome fourMonthsExpenses))
      = improving"
    unfolding fourMonths_active by (simp add: specTrend_def classifyTrend_def)
  then show ?thesis using fourMonths_enough fourMonths_trend by simp
qed

text \<open>
  Claim C2, amended: with \<open>n \<ge> 2\<close> active months, the trend compares the savings rate of
  the most recent active month with that of the first of the last three active months,
  that is the active month 2 positions back, or the oldest one when there are only two:
  improving if the difference exceeds 3 percentage points, declining if it is below
  \<open>- 3\<close>, else stable.
\<close>

theorem trend_compares_last_three:
  assumes "2 \<le> length (filter isActive (getMonthlyAggregates now incs exps))"
  shows "trend (getPredictions now incs exps) =
     (let active = filter isActive (getMonthlyAggregates now incs exps);
          n = length active;
          delta = savingsRate (active ! (n - 1)) - savingsRate (active ! (n - min n 3))
      in if delta > 3 then improving else if delta < - 3 then declining else stable)"
proof -
  let ?active = "filter isActive (getMonthlyAggregates now incs exps)"
  let ?n = "length ?active"
  let ?last3 = "drop (?n - 3) ?active"
  have len: "length ?last3 = min ?n 3" by auto
  have ge: "2 \<le> length ?last3" using assms len by simp
  have l: "?last3 ! (length ?last3 - 1) = ?active ! (?n - 1)"
    using assms by (simp add: min_def)
  have f: "?last3 ! 0 = ?active ! (?n - min ?n 3)"
    using assms by (simp add: min_def)
  have "\<not> ?n < 2" using assms by simp
  then have "trend (getPredictions now incs exps) =
     (let last3 = ?last3
      in classifyTrend (if 2 \<le> length last3
           then savingsRate (last3 ! (length last3 - 1)) - savingsRate (last3 ! 0) else 0))"
    by (rule trend_last3)
  then have "trend (getPredictions now incs exps)
      = classifyTrend (savingsRate (?last3 ! (length ?last3 - 1)) - savingsRate (?last3 ! 0))"
    using ge by (simp only: Let_def if_True)
  then show ?thesis by (simp only: l f Let_def classifyTrend_def)
qed

theorem trend_compares_last_three_witness:
  "2 \<le> length (filter isActive (getMonthlyAggregates june2024 fourMonthsIncome fourMonthsExpenses))
   \<and> trend (getPredictions june2024 fourMonthsIncome fourMonthsExpenses) = stable"
proof -
  have "trend (getPredictions june2024 fourMonthsIncome fourMonthsExpenses) = stable"
    unfolding trend_compares_last_three [OF fourMonths_enough] fourMonths_active
    by simp
  then show ?thesis using fourMonths_enough by simp
qed

section \<open>Insights\<close>

text \<open>
  Claim C7. For empty income and expense lists \<open>generateInsights\<close> returns exactly one
  insight, of severity info, built by the welcome template of line 27, and nothing else.
\<close>

theorem generateInsights_empty:
  "generateInsights now [] [] = [\<lparr>type = info, message = Msg 27 []\<rparr>]"
  by (simp add: generateInsights_def sum_by_def push_def)

section \<open>The wall clock\<close>

text \<open>
  Each function reads the clock only through \<open>getFullYear\<close> and \<open>getMonth\<close>: two readings
  in the same month of the same year give the same result.
\<close>

lemma clock_initMonth:
  assumes "getFullYear t1 = getFullYear t2" and "getMonth t1 = getMonth t2"
  shows "initMonth t1 = initMonth t2"
  using assms by (simp add: initMonth_def fun_eq_iff)

lemma clock_getMonthlyAggregates:
  assumes "getFullYear t1 = getFullYear t2" and "getMonth t1 = getMonth t2"
  shows "getMonthlyAggregates t1 incs exps = getMonthlyAggregates t2 incs exps"
  unfolding getMonthlyAggregates_def clock_initMonth [OF assms] ..

lemma clock_getCategorySummaries:
  assumes "getMonth t1 = getMonth t2"
  shows "getCategorySummaries t1 exps = getCategorySummaries t2 exps"
  unfolding getCategorySummaries_def assms ..

lemma clock_getCurrentMonthStats:
  assumes "getFullYear t1 = getFullYear t2" and "getMonth t1 = getMonth t2"
  shows "getCurrentMonthStats t1 incs exps = getCurrentMonthStats t2 incs exps"
  unfolding getCurrentMonthStats_def assms ..

lemma clock_getYearlySummary:
  assumes "getFullYear t1 = getFullYear t2" and "getMonth t1 = getMonth t2"
  shows "getYearlySummary t1 incs exps = getYearlySummary t2 incs exps"
  unfolding getYearlySummary_def clock_getMonthlyAggregates [OF assms]
    clock_getCategorySummaries [OF assms(2)] ..

lemma clock_getFinancialHealthScore:
  assumes "getFullYear t1 = getFullYear t2" and "getMonth t1 = getMonth t2"
  shows "getFinancialHealthScore t1 incs exps = getFinancialHealthScore t2 incs exps"
  unfolding getFinancialHealthScore_def clock_getYearlySummary [OF assms]
    clock_getMonthlyAggregates [OF assms] clock_getCategorySummaries [OF assms(2)] ..

lemma clock_getPredictions:
  assumes "getFullYear t1 = getFullYear t2" and "getMonth t1 = getMonth t2"
  shows "getPredictions t1 incs exps = getPredictions t2 incs exps"
  unfolding getPredictions_def clock_getMonthlyAggregates [OF assms] assms ..

lemma clock_generateInsights:
  assumes "getFullYear t1 = getFullYear t2" and "getMonth t1 = getMonth t2"
  shows "generateInsights t1 incs exps = generateInsights t2 incs exps"
  unfolding generateInsights_def clock_getYearlySummary [OF assms]
    clock_getMonthlyAggregates [OF assms] clock_getCategorySummaries [OF assms(2)]
    clock_getFinancialHealthScore [OF assms] clock_getCurrentMonthStats [OF assms]
    clock_getPredictions [OF assms] assms ..

text \<open>
  Claim C9. For identical income and expense lists and two evaluations in the same
  current month and year, each of \<open>getMonthlyAggregates\<close>, \<open>getCategorySummaries\<close>,
  \<open>getYearlySummary\<close>, \<open>getFinancialHealthScore\<close>, \<open>getPredictions\<close> and \<open>generateInsights\<close>
  returns identical output: the result is a function of the lists and of the current
  month and year alone, with no other dependence on the wall clock and no random input.
\<close>

theorem analytics_deterministic:
  assumes "getFullYear t1 = getFullYear t2" and "getMonth t1 = getMonth t2"
  shows "getMonthlyAggregates t1 incs exps = getMonthlyAggregates t2 incs exps
       \<and> getCategorySummaries t1 exps = getCategorySummaries t2 exps
       \<and> getYearlySummary t1 incs exps = getYearlySummary t2 incs exps
       \<and> getFinancialHealthScore t1 incs exps = getFinancialHealthScore t2 incs exps
       \<and> getPredictions t1 incs exps = getPredictions t2 incs exps
       \<and> generateInsights t1 incs exps = generateInsights t2 incs exps"
  using clock_getMonthlyAggregates [OF assms] clock_getCategorySummaries [OF assms(2)]
    clock_getYearlySummary [OF assms] clock_getFinancialHealthScore [OF assms]
    clock_getPredictions [OF assms] clock_generateInsights [OF assms]
  by simp

theorem analytics_deterministic_witness:
  "june2024 \<noteq> lateJune2024
   \<and> getFullYear june2024 = getFullYear lateJune2024
   \<and> getMonth june2024 = getMonth lateJune2024
   \<and> getMonthlyAggregates june2024 fourMonthsIncome fourMonthsExpenses
       = getMonthlyAggregates lateJune2024 fourMonthsIncome fourMonthsExpenses
   \<and> generateInsights june2024 fourMonthsIncome fourMonthsExpenses
       = generateInsights lateJune2024 fourMonthsIncome fourMonthsExpenses"
proof -
  have y: "getFullYear june2024 = getFullYear lateJune2024"
    by (simp add: getFullYear_def june2024_def lateJune2024_def)
  have m: "getMonth june2024 = getMonth lateJune2024"
    by (simp add: getMonth_def june2024_def lateJune2024_def)
  have d: "june2024 \<noteq> lateJune2024"
    by (simp add: june2024_def lateJune2024_def)
  show ?thesis
    using analytics_deterministic [OF y m, of fourMonthsIncome fourMonthsExpenses] y m d by simp
qed

end
